theory Spec2Isabelle
  imports Complex_Main "HOL-Library.Log_Nat"
begin

section \<open>Python strings\<close>

text \<open>
  A Python \<open>str\<close> is modelled as a \<open>string\<close>, one \<open>char\<close> per code point. The text of
  the pipeline is taken to be ASCII: the functions below give Python's answer on the code
  points 0 to 127 and treat every other \<open>char\<close> as a caseless character that is not
  whitespace.
\<close>

definition whitespace :: string where
  \<comment> \<open>the ASCII code points for which \<open>str.isspace\<close> holds; \<open>\s\<close> of \<open>re\<close> matches the same ones\<close>
  "whitespace = [CHR 0x09, CHR 0x0A, CHR 0x0B, CHR 0x0C, CHR 0x0D,
                 CHR 0x1C, CHR 0x1D, CHR 0x1E, CHR 0x1F, CHR 0x20]"

definition is_space :: "char \<Rightarrow> bool" where
  "is_space c = (c \<in> set whitespace)"

definition strip :: "string \<Rightarrow> string" where
  \<comment> \<open>\<open>s.strip()\<close>\<close>
  "strip s = rev (dropWhile is_space (rev (dropWhile is_space s)))"

definition ascii_uppercase :: string where
  "ascii_uppercase = ''ABCDEFGHIJKLMNOPQRSTUVWXYZ''"

definition ascii_lowercase :: string where
  "ascii_lowercase = ''abcdefghijklmnopqrstuvwxyz''"

definition lower_char :: "char \<Rightarrow> char" where
  "lower_char c = (case map_of (zip ascii_uppercase ascii_lowercase) c of Some d \<Rightarrow> d | None \<Rightarrow> c)"

definition upper_char :: "char \<Rightarrow> char" where
  "upper_char c = (case map_of (zip ascii_lowercase ascii_uppercase) c of Some d \<Rightarrow> d | None \<Rightarrow> c)"

definition lower :: "string \<Rightarrow> string" where
  \<comment> \<open>\<open>s.lower()\<close>\<close>
  "lower s = map lower_char s"

definition upper :: "string \<Rightarrow> string" where
  \<comment> \<open>\<open>s.upper()\<close>\<close>
  "upper s = map upper_char s"

lemma length_dropWhile_less [termination_simp]:
  "length (dropWhile P xs) < Suc (length xs)"
  by (simp add: length_dropWhile_le le_imp_less_Suc)

lemma length_tl_dropWhile_less [termination_simp]:
  "length (dropWhile P xs) - Suc 0 < Suc (length xs)"
  using length_dropWhile_less [of P xs] by simp

fun sub_space :: "string \<Rightarrow> string" where
  \<comment> \<open>\<open>SPACE_RE.sub(" ", s)\<close> with \<open>SPACE_RE = \s+\<close>: every maximal run of whitespace becomes one space\<close>
  "sub_space [] = []"
| "sub_space (c # cs) =
     (if is_space c then CHR '' '' # sub_space (dropWhile is_space cs)
      else c # sub_space cs)"

fun sub_delim :: "char \<Rightarrow> char \<Rightarrow> string \<Rightarrow> string" where
  \<comment> \<open>\<open>re.sub\<close> of \<open>l [^r]* r\<close> by one space: from an opening \<open>l\<close> that has a closing \<open>r\<close>
      somewhere after it, up to the first such \<open>r\<close>\<close>
  "sub_delim l r [] = []"
| "sub_delim l r (c # cs) =
     (if c = l \<and> r \<in> set cs
      then CHR '' '' # sub_delim l r (tl (dropWhile (\<lambda>x. x \<noteq> r) cs))
      else c # sub_delim l r cs)"

section \<open>The Cleaner (clean\_transcript.py)\<close>

definition clean_text :: "string \<Rightarrow> string" where
  "clean_text s =
     strip (sub_space (sub_delim CHR ''['' CHR '']'' (sub_delim CHR ''('' CHR '')'' s)))"

text \<open>
  The state of \<open>process_stream\<close>: the pending buffer \<open>buf\<close>, the dedupe window \<open>recent\<close>
  (a \<open>deque(maxlen=64)\<close>, oldest key first) and the lines appended to the output file so far.
\<close>

record cleaner =
  buf :: string
  recent :: "string list"
  out :: "string list"

definition init :: cleaner where
  "init = \<lparr>buf = [], recent = [], out = []\<rparr>"

definition deque_append :: "nat \<Rightarrow> 'a list \<Rightarrow> 'a \<Rightarrow> 'a list" where
  \<comment> \<open>\<open>append\<close> on a \<open>deque(maxlen=n)\<close> with \<open>n > 0\<close>: a full deque drops its oldest element\<close>
  "deque_append n xs x = (if n \<le> length xs then tl xs @ [x] else xs @ [x])"

definition emit :: "string \<Rightarrow> cleaner \<Rightarrow> cleaner" where
  "emit raw st =
     (let s = clean_text raw in
      if s = [] then st
      else let key = lower s in
        if key \<in> set (recent st) then st
        else st\<lparr>out := out st @ [s], recent := deque_append 64 (recent st) key\<rparr>)"

lemma buf_emit [simp]: "buf (emit raw st) = buf st"
  by (simp add: emit_def Let_def)

definition newline :: char where
  "newline = CHR 0x0A"

function drain_newlines :: "cleaner \<Rightarrow> bool \<Rightarrow> bool \<times> cleaner" where
  \<comment> \<open>the loop of \<open>drain_newlines\<close>; the second argument is \<open>flushed\<close>\<close>
  "drain_newlines st flushed =
     (if newline \<in> set (buf st) then
        let line = takeWhile (\<lambda>c. c \<noteq> newline) (buf st);
            st1 = st\<lparr>buf := tl (dropWhile (\<lambda>c. c \<noteq> newline) (buf st))\<rparr>
        in if strip line \<noteq> [] then drain_newlines (emit line st1) True
           else drain_newlines st1 flushed
      else (flushed, st))"
  by pat_completeness auto
termination
proof (relation "measure (\<lambda>(st, flushed). length (buf st))")
  show "wf (measure (\<lambda>(st, flushed). length (buf st)))" by simp
next
  fix st :: cleaner and flushed :: bool and line st1
  assume "newline \<in> set (buf st)"
    and "st1 = st\<lparr>buf := tl (dropWhile (\<lambda>c. c \<noteq> newline) (buf st))\<rparr>"
  then have "length (buf st1) < length (buf st)"
    using length_dropWhile_le [of "\<lambda>c. c \<noteq> newline" "buf st"]
    by (cases "buf st") (auto simp: less_Suc_eq_le le_diff_conv)
  then show "((emit line st1, True), st, flushed) \<in> measure (\<lambda>(st, flushed). length (buf st))"
    and "((st1, flushed), st, flushed) \<in> measure (\<lambda>(st, flushed). length (buf st))"
    by simp_all
qed

definition is_end :: "char \<Rightarrow> bool" where
  \<comment> \<open>\<open>END_RE = [.!?]\<close>\<close>
  "is_end c = (c \<in> set ''.!?'')"

function drain_punct :: "cleaner \<Rightarrow> bool \<Rightarrow> bool \<times> cleaner" where
  \<comment> \<open>the loop of \<open>drain_punct\<close>: \<open>sent\<close> runs up to and including the first terminator\<close>
  "drain_punct st flushed =
     (if \<exists>c \<in> set (buf st). is_end c then
        let sent = takeWhile (\<lambda>c. \<not> is_end c) (buf st)
                     @ take 1 (dropWhile (\<lambda>c. \<not> is_end c) (buf st));
            st1 = st\<lparr>buf := tl (dropWhile (\<lambda>c. \<not> is_end c) (buf st))\<rparr>
        in drain_punct (emit sent st1) True
      else (flushed, st))"
  by pat_completeness auto
termination
proof (relation "measure (\<lambda>(st, flushed). length (buf st))")
  show "wf (measure (\<lambda>(st, flushed). length (buf st)))" by simp
next
  fix st :: cleaner and flushed :: bool and sent st1
  assume "\<exists>c \<in> set (buf st). is_end c"
    and "st1 = st\<lparr>buf := tl (dropWhile (\<lambda>c. \<not> is_end c) (buf st))\<rparr>"
  then have "length (buf st1) < length (buf st)"
    using length_dropWhile_le [of "\<lambda>c. \<not> is_end c" "buf st"]
    by (cases "buf st") (auto simp: less_Suc_eq_le le_diff_conv)
  then show "((emit sent st1, True), st, flushed) \<in> measure (\<lambda>(st, flushed). length (buf st))"
    by simp
qed

definition idle_flush :: "rat \<Rightarrow> rat \<Rightarrow> cleaner \<Rightarrow> cleaner" where
  \<comment> \<open>lines 105 to 109; \<open>elapsed\<close> is \<open>now - last_activity\<close>\<close>
  "idle_flush idle_sec elapsed st =
     (if idle_sec \<le> elapsed \<and> strip (buf st) \<noteq> []
      then emit (strip (buf st)) (st\<lparr>buf := []\<rparr>)
      else st)"

definition trim_overflow :: "string \<Rightarrow> string" where
  \<comment> \<open>lines 111 and 112; \<open>b[-8192:]\<close> is the last 8192 characters\<close>
  "trim_overflow b = (if 16384 < length b then drop (length b - 8192) b else b)"

definition process_chunk :: "rat \<Rightarrow> rat \<Rightarrow> string \<Rightarrow> cleaner \<Rightarrow> cleaner" where
  \<comment> \<open>one cycle of the loop of \<open>process_stream\<close>, for the chunk the follower yields;
      \<open>idle_sec\<close> is the configured window in seconds and \<open>elapsed\<close> the time the two clock
      readings of the cycle are apart\<close>
  "process_chunk idle_sec elapsed chunk st =
     (let st0 = st\<lparr>buf := buf st @ chunk\<rparr>;
          (flushed, st1) = drain_newlines st0 False;
          (drained, st2) = (if flushed then (flushed, st1) else drain_punct st1 False);
          st3 = idle_flush idle_sec elapsed st2
      in st3\<lparr>buf := trim_overflow (buf st3)\<rparr>)"


section \<open>Python values\<close>

text \<open>
  What \<open>json.loads\<close> and \<open>json.load\<close> return: \<open>None\<close>, booleans, numbers, strings, lists and
  dicts. A number is the rational it denotes, for an \<open>int\<close> and for a finite \<open>float\<close> alike
  (\<open>NaN\<close> and the infinities are not modelled). A dict is the list of its items, in
  insertion order, each key once.
\<close>

datatype json = JNull | JBool bool | JNum rat | JStr string | JArr "json list"
  | JObj "(string \<times> json) list"

datatype error = JSONDecodeError | AttributeError | TypeError

fun truthy :: "json \<Rightarrow> bool" where
  \<comment> \<open>the truth value Python gives \<open>if v:\<close>, \<open>not v\<close> and \<open>v or w\<close>\<close>
  "truthy JNull = False"
| "truthy (JBool b) = b"
| "truthy (JNum r) = (r \<noteq> 0)"
| "truthy (JStr s) = (s \<noteq> [])"
| "truthy (JArr xs) = (xs \<noteq> [])"
| "truthy (JObj kvs) = (kvs \<noteq> [])"

fun py_eq :: "json \<Rightarrow> json \<Rightarrow> bool" where
  \<comment> \<open>Python's \<open>==\<close>: \<open>True == 1\<close>, lists compare item by item, dicts key by key\<close>
  "py_eq JNull JNull = True"
| "py_eq (JBool a) (JBool b) = (a = b)"
| "py_eq (JBool a) (JNum b) = ((if a then 1 else 0) = b)"
| "py_eq (JNum a) (JBool b) = (a = (if b then 1 else 0))"
| "py_eq (JNum a) (JNum b) = (a = b)"
| "py_eq (JStr a) (JStr b) = (a = b)"
| "py_eq (JArr xs) (JArr ys) = list_all2 py_eq xs ys"
| "py_eq (JObj a) (JObj b) =
     (length a = length b \<and>
      list_all (\<lambda>(k, v). case map_of b k of None \<Rightarrow> False | Some w \<Rightarrow> py_eq v w) a)"
| "py_eq _ _ = False"

definition get_default :: "(string \<times> json) list \<Rightarrow> string \<Rightarrow> json \<Rightarrow> json" where
  \<comment> \<open>\<open>d.get(k, v0)\<close>\<close>
  "get_default d k v0 = (case map_of d k of None \<Rightarrow> v0 | Some v \<Rightarrow> v)"

definition get :: "(string \<times> json) list \<Rightarrow> string \<Rightarrow> json" where
  \<comment> \<open>\<open>d.get(k)\<close>\<close>
  "get d k = get_default d k JNull"

section \<open>Python floats\<close>

text \<open>
  A finite \<open>float\<close> is the rational it denotes. An arithmetic result is the exact result
  rounded to the nearest double, ties to the even significand (IEEE 754 binary64, 53 bits);
  results beyond the normal range (overflow, subnormal numbers) are not modelled.
\<close>

definition round_half_even :: "rat \<Rightarrow> int" where
  \<comment> \<open>\<open>round(x)\<close> of a float: the nearest integer, a tie going to the even one\<close>
  "round_half_even x =
     (let f = \<lfloor>x\<rfloor>; d = x - of_int f in
      if d < 1 / 2 then f else if 1 / 2 < d then f + 1 else if even f then f else f + 1)"

definition pow2 :: "int \<Rightarrow> rat" where
  "pow2 e = (if 0 \<le> e then 2 ^ nat e else 1 / 2 ^ nat (- e))"

definition ilog2 :: "rat \<Rightarrow> int" where
  \<comment> \<open>the exponent \<open>e\<close> of a positive \<open>x\<close>: \<open>2 ^ e \<le> x < 2 ^ (e + 1)\<close>\<close>
  "ilog2 x =
     (let (a, b) = quotient_of x;
          k = bitlen a - bitlen b
      in if pow2 k \<le> x then k else k - 1)"

definition float_round :: "rat \<Rightarrow> rat" where
  "float_round x =
     (if x = 0 then 0
      else let u = pow2 (ilog2 \<bar>x\<bar> - 52) in of_int (round_half_even (x / u)) * u)"

definition truediv :: "rat \<Rightarrow> rat \<Rightarrow> rat" where
  \<comment> \<open>\<open>a / b\<close> for a number \<open>a\<close> and a nonzero float \<open>b\<close>: an \<open>int\<close> is converted first\<close>
  "truediv a b = float_round (float_round a / b)"

section \<open>The Glossifier (glossify\_transcript.py)\<close>






definition lex_get :: "(string \<rightharpoonup> json) \<Rightarrow> string \<Rightarrow> json" where
  \<comment> \<open>\<open>lex.get(k)\<close>\<close>
  "lex_get lexicon k = (case lexicon k of None \<Rightarrow> JNull | Some v \<Rightarrow> v)"

definition lex_entry :: "(string \<rightharpoonup> json) \<Rightarrow> string \<Rightarrow> json" where
  \<comment> \<open>\<open>lex.get(g.lower()) or lex.get(g) or lex.get(g.upper())\<close>\<close>
  "lex_entry lexicon g =
     (let a = lex_get lexicon (lower g) in
      if truthy a then a
      else let b = lex_get lexicon g in
        if truthy b then b else lex_get lexicon (upper g))"

definition number_value :: "json \<Rightarrow> rat option" where
  \<comment> \<open>the operands \<open>/\<close> accepts: \<open>int\<close>, \<open>float\<close> and \<open>bool\<close>\<close>
  "number_value v =
     (case v of JNum r \<Rightarrow> Some r | JBool b \<Rightarrow> Some (if b then 1 else 0) | _ \<Rightarrow> None)"

definition rate_floor :: rat where
  \<comment> \<open>the literal \<open>0.01\<close>\<close>
  "rate_floor = float_round (1 / 100)"

definition scaled_duration :: "json \<Rightarrow> rat \<Rightarrow> error + int" where
  \<comment> \<open>\<open>int(round(dur_src / max(rate, 0.01)))\<close>\<close>
  "scaled_duration dur_src rate =
     (case number_value dur_src of
        None \<Rightarrow> Inl TypeError
      | Some d \<Rightarrow> Inr (round_half_even (truediv d (max rate rate_floor))))"

definition clip :: "json \<Rightarrow> json \<Rightarrow> int \<Rightarrow> json" where
  "clip label asset dur =
     JObj [(''label'', label), (''type'', JStr ''clip''), (''asset'', asset),
           (''dur_ms'', JNum (of_int dur))]"

definition tween :: "int \<Rightarrow> json" where
  "tween tween_ms =
     JObj [(''label'', JStr ''_TWEEN''), (''type'', JStr ''meta''),
           (''dur_ms'', JNum (of_int tween_ms))]"

fun gloss_loop ::
  "(string \<rightharpoonup> json) \<Rightarrow> int \<Rightarrow> rat \<Rightarrow> nat \<Rightarrow> (nat \<times> string) list \<Rightarrow> json list
     \<Rightarrow> error + json list" where
  \<comment> \<open>the loop of \<open>map_gloss_to_queue\<close> over \<open>enumerate(gloss)\<close>; \<open>n\<close> is \<open>len(gloss)\<close>\<close>
  "gloss_loop lexicon tween_ms rate n [] queue = Inr queue"
| "gloss_loop lexicon tween_ms rate n ((i, g) # rest) queue =
     (let entry = lex_entry lexicon g in
      if truthy entry then
        (case entry of
           JObj e \<Rightarrow>
             (case scaled_duration (get_default e ''dur_ms'' (JNum 1000)) rate of
                Inl err \<Rightarrow> Inl err
              | Inr dur \<Rightarrow>
                  let queue1 = queue @ [clip (get_default e ''label'' (JStr g)) (get e ''asset'') dur];
                      queue2 = (if tween_ms \<noteq> 0 \<and> int i < int n - 1
                                then queue1 @ [tween tween_ms] else queue1)
                  in gloss_loop lexicon tween_ms rate n rest queue2)
         | _ \<Rightarrow> Inl AttributeError)
      else gloss_loop lexicon tween_ms rate n rest queue)"

definition map_gloss_to_queue ::
  "string list \<Rightarrow> (string \<rightharpoonup> json) \<Rightarrow> int \<Rightarrow> rat \<Rightarrow> error + json list" where
  "map_gloss_to_queue gloss lexicon tween_ms rate =
     gloss_loop lexicon tween_ms rate (length gloss) (enumerate 0 gloss) []"

definition is_clip :: "json \<Rightarrow> bool" where
  "is_clip item = (case item of JObj d \<Rightarrow> get d ''type'' = JStr ''clip'' | _ \<Rightarrow> False)"

definition is_tween :: "json \<Rightarrow> bool" where
  "is_tween item = (case item of JObj d \<Rightarrow> get d ''type'' = JStr ''meta'' | _ \<Rightarrow> False)"





section \<open>The Streamer (stream\_queue\_assets.py)\<close>

definition iter_items :: "json \<Rightarrow> error + json list" where
  \<comment> \<open>what \<open>for item in queue\<close> iterates over: the items of a list, the characters of a
      string, the keys of a dict; anything else is not iterable\<close>
  "iter_items q =
     (case q of
        JArr xs \<Rightarrow> Inr xs
      | JStr s \<Rightarrow> Inr (map (\<lambda>c. JStr [c]) s)
      | JObj kvs \<Rightarrow> Inr (map (\<lambda>kv. JStr (fst kv)) kvs)
      | _ \<Rightarrow> Inl TypeError)"

fun asset_loop :: "json list \<Rightarrow> json \<Rightarrow> json list \<Rightarrow> error + (json list \<times> json)" where
  \<comment> \<open>the loop of \<open>process_line\<close>; the second argument is \<open>last_label_box[0]\<close>, the third
      \<open>out_assets\<close>\<close>
  "asset_loop [] last_label out_assets = Inr (out_assets, last_label)"
| "asset_loop (item # rest) last_label out_assets =
     (case item of
        JObj d \<Rightarrow>
          if \<not> py_eq (get d ''type'') (JStr ''clip'') then asset_loop rest last_label out_assets
          else
            let label = get d ''label''; asset = get d ''asset'' in
            if \<not> truthy asset then asset_loop rest last_label out_assets
            else if truthy label \<and> py_eq label last_label
              then asset_loop rest last_label out_assets
            else asset_loop rest label (out_assets @ [asset])
      | _ \<Rightarrow> Inl AttributeError)"

definition process_line ::
  "(string \<Rightarrow> error + json) \<Rightarrow> string \<Rightarrow> json \<Rightarrow> error + (json list \<times> json)" where
  \<comment> \<open>\<open>json_loads\<close> stands for \<open>json.loads\<close>; the result is the list returned and the new
      \<open>last_label_box[0]\<close>\<close>
  "process_line json_loads line0 last_label =
     (let line = strip line0 in
      if line = [] then Inr ([], last_label)
      else case json_loads line of
          Inl JSONDecodeError \<Rightarrow> Inr ([], last_label)
        | Inl err \<Rightarrow> Inl err
        | Inr obj \<Rightarrow>
            (case obj of
               JObj d \<Rightarrow>
                 (case iter_items (get_default d ''queue'' (JArr [])) of
                    Inl err \<Rightarrow> Inl err
                  | Inr items \<Rightarrow> asset_loop items last_label [])
             | _ \<Rightarrow> Inl AttributeError))"



section \<open>Notions the properties are stated with\<close>








definition tweens_follow_clips :: "json list \<Rightarrow> bool" where
  \<comment> \<open>a queue does not begin with a tween, and a tween comes right after a clip\<close>
  "tweens_follow_clips q =
     ((q \<noteq> [] \<longrightarrow> is_clip (hd q)) \<and>
      (\<forall>j. Suc j < length q \<and> is_tween (q ! Suc j) \<longrightarrow> is_clip (q ! j)))"

section \<open>Test data\<close>


text \<open>
  Lines of the structured-record stream, and \<open>sample_loads\<close>, which returns on each of
  them what \<open>json.loads\<close> returns. Of the lines below only \<open>line_truncated\<close> does not
  decode; it is the one line \<open>sample_loads\<close> is applied to beyond those it lists.
\<close>

definition line_a :: string where
  \<open>line_a = ''{"queue": [{"label": "A", "type": "clip", "asset": "a.mp4"}]}''\<close>

definition line_ab :: string where
  \<open>line_ab = ''{"queue": [{"label": "A", "type": "clip", "asset": "a.mp4"}, {"label": "_TWEEN", "type": "meta"}, {"label": "B", "type": "clip", "asset": "b.mp4"}]}''\<close>

definition line_b :: string where
  \<open>line_b = ''{"queue": [{"label": "B", "type": "clip", "asset": "b.mp4"}]}''\<close>

definition line_empty_labels :: string where
  \<open>line_empty_labels = ''{"queue": [{"label": "", "type": "clip", "asset": "a.mp4"}, {"label": "", "type": "clip", "asset": "b.mp4"}]}''\<close>

definition line_partial :: string where
  \<open>line_partial = ''{"queue": [{"type": "clip", "asset": "c.mp4"}, {"label": "C", "type": "clip"}, {"label": null, "type": "clip", "asset": "d.mp4"}]}''\<close>


definition line_number :: string where
  "line_number = ''42''"

definition labelled :: "string \<Rightarrow> string \<Rightarrow> (string \<times> json) list" where
  "labelled l a = [(''label'', JStr l), (''type'', JStr ''clip''), (''asset'', JStr a)]"

definition sample_loads :: "string \<Rightarrow> error + json" where
  "sample_loads s =
     (if s = line_a then Inr (JObj [(''queue'', JArr [JObj (labelled ''A'' ''a.mp4'')])])
      else if s = line_b then Inr (JObj [(''queue'', JArr [JObj (labelled ''B'' ''b.mp4'')])])
      else if s = line_ab then
        Inr (JObj [(''queue'', JArr [JObj (labelled ''A'' ''a.mp4''),
                                     JObj [(''label'', JStr ''_TWEEN''), (''type'', JStr ''meta'')],
                                     JObj (labelled ''B'' ''b.mp4'')])])
      else if s = line_empty_labels then
        Inr (JObj [(''queue'', JArr [JObj (labelled [] ''a.mp4''), JObj (labelled [] ''b.mp4'')])])
      else if s = line_partial then
        Inr (JObj [(''queue'', JArr [JObj [(''type'', JStr ''clip''), (''asset'', JStr ''c.mp4'')],
                                     JObj [(''label'', JStr ''C''), (''type'', JStr ''clip'')],
                                     JObj [(''label'', JNull), (''type'', JStr ''clip''),
                                           (''asset'', JStr ''d.mp4'')]])])
      else if s = line_number then Inr (JNum 42)
      else Inl JSONDecodeError)"

definition sample_lexicon :: "string \<rightharpoonup> json" where
  "sample_lexicon =
     map_of [(''hello'', JObj [(''label'', JStr ''HELLO''), (''asset'', JStr ''hello.mp4''),
                               (''dur_ms'', JNum 1200)]),
             (''WORLD'', JObj [(''asset'', JStr ''world.mp4'')]),
             (''Thanks'', JObj [])]"

section \<open>Properties of the Cleaner\<close>

declare drain_newlines.simps [simp del] drain_punct.simps [simp del]















text \<open>
  The punctuation drain runs only when the newline drain found no line to emit: after a
  newline drain that did, a complete sentence stays in the buffer.
\<close>

lemma punct_drain_skipped:
  "fst (drain_newlines (st\<lparr>buf := buf st @ chunk\<rparr>) False) \<Longrightarrow>
   process_chunk idle_sec elapsed chunk st =
     (let st3 = idle_flush idle_sec elapsed (snd (drain_newlines (st\<lparr>buf := buf st @ chunk\<rparr>) False))
      in st3\<lparr>buf := trim_overflow (buf st3)\<rparr>)"
  by (simp add: process_chunk_def Let_def split_beta)

lemma punct_drain_skipped_example:
  "process_chunk 1 0 ''a\<newline>b. c'' init = \<lparr>buf = ''b. c'', recent = [''a''], out = [''a'']\<rparr>"
  by code_simp

text \<open>
  C2. With an idle window of zero and the buffer \<open>a\<newline>b\<close>, the newline drain writes
  \<open>a\<close> and reports output, and the idle flush of the same cycle still writes the
  leftover \<open>b\<close>: the result of the drains is computed and never consulted.
\<close>

theorem idle_flush_after_newline_drain:
  "fst (drain_newlines (init\<lparr>buf := ''a\<newline>b''\<rparr>) False) \<and>
   process_chunk 0 0 ''a\<newline>b'' init = \<lparr>buf = [], recent = [''a'', ''b''], out = [''a'', ''b'']\<rparr>"
  by code_simp

section \<open>Properties of the Streamer\<close>

lemma py_eq_JStr [simp]: "py_eq x (JStr s) = (x = JStr s)" "py_eq (JStr s) x = (x = JStr s)"
  by (cases x; auto)+










text \<open>
  C10. In the loop of \<open>process_line\<close> a clip whose asset is absent or empty is skipped
  and the last emitted label stays as it is. A clip with a non-empty asset whose label is
  absent, null or empty is emitted whatever the last emitted label is, also when that label
  is the clip's own empty label.
\<close>

theorem unlabelled_clip_always_emitted:
  "get d ''type'' = JStr ''clip'' \<longrightarrow>
     (\<not> truthy (get d ''asset'') \<longrightarrow>
        asset_loop (JObj d # rest) l acc = asset_loop rest l acc) \<and>
     (truthy (get d ''asset'') \<and>
      (map_of d ''label'' = None \<or> get d ''label'' = JNull \<or> get d ''label'' = JStr []) \<longrightarrow>
        asset_loop (JObj d # rest) l acc =
          asset_loop rest (get d ''label'') (acc @ [get d ''asset'']) \<and>
        asset_loop (JObj d # rest) (get d ''label'') acc =
          asset_loop rest (get d ''label'') (acc @ [get d ''asset'']))"
  by (auto simp: Let_def get_def get_default_def)

theorem unlabelled_clip_always_emitted_witness:
  "process_line sample_loads line_partial (JStr ''C'') = Inr ([JStr ''c.mp4'', JStr ''d.mp4''], JNull) \<and>
   process_line sample_loads line_empty_labels (JStr []) = Inr ([JStr ''a.mp4'', JStr ''b.mp4''], JStr [])"
proof -
  let ?c = "[(''type'', JStr ''clip''), (''asset'', JStr ''c.mp4'')]"
  let ?n = "[(''label'', JStr ''C''), (''type'', JStr ''clip'')]"
  let ?d = "[(''label'', JNull), (''type'', JStr ''clip''), (''asset'', JStr ''d.mp4'')]"
  have 1: "asset_loop [JObj ?c, JObj ?n, JObj ?d] (JStr ''C'') [] =
           asset_loop [JObj ?n, JObj ?d] JNull [JStr ''c.mp4'']"
    using unlabelled_clip_always_emitted [of ?c "[JObj ?n, JObj ?d]" "JStr ''C''" "[]"]
    by (simp add: get_def get_default_def)
  have 2: "asset_loop [JObj ?n, JObj ?d] JNull [JStr ''c.mp4''] =
           asset_loop [JObj ?d] JNull [JStr ''c.mp4'']"
    using unlabelled_clip_always_emitted [of ?n "[JObj ?d]" JNull "[JStr ''c.mp4'']"]
    by (simp add: get_def get_default_def)
  have 3: "asset_loop [JObj ?d] JNull [JStr ''c.mp4''] =
           asset_loop [] JNull [JStr ''c.mp4'', JStr ''d.mp4'']"
    using unlabelled_clip_always_emitted [of ?d "[]" JNull "[JStr ''c.mp4'']"]
    by (simp add: get_def get_default_def)
  have 4: "asset_loop [JObj (labelled [] ''a.mp4''), JObj (labelled [] ''b.mp4'')] (JStr []) [] =
           asset_loop [JObj (labelled [] ''b.mp4'')] (JStr []) [JStr ''a.mp4'']"
    using unlabelled_clip_always_emitted
      [of "labelled [] ''a.mp4''" "[JObj (labelled [] ''b.mp4'')]" "JStr []" "[]"]
    by (simp add: get_def get_default_def labelled_def)
  have 5: "asset_loop [JObj (labelled [] ''b.mp4'')] (JStr []) [JStr ''a.mp4''] =
           asset_loop [] (JStr []) [JStr ''a.mp4'', JStr ''b.mp4'']"
    using unlabelled_clip_always_emitted
      [of "labelled [] ''b.mp4''" "[]" "JStr []" "[JStr ''a.mp4'']"]
    by (simp add: get_def get_default_def labelled_def)
  have p: "process_line sample_loads line_partial (JStr ''C'') =
           asset_loop [JObj ?c, JObj ?n, JObj ?d] (JStr ''C'') []"
    by code_simp
  have e: "process_line sample_loads line_empty_labels (JStr []) =
           asset_loop [JObj (labelled [] ''a.mp4''), JObj (labelled [] ''b.mp4'')] (JStr []) []"
    by code_simp
  show ?thesis
    unfolding p e 1 2 3 4 5 by simp
qed




section \<open>Properties of the Glossifier\<close>









text \<open>
  In every queue \<open>map_gloss_to_queue\<close> returns, a tween comes right after a clip: no
  queue begins with a tween and no two tweens are neighbours.
\<close>

lemma is_clip_clip: "is_clip (clip l a d) \<and> \<not> is_tween (clip l a d)"
  by (simp add: is_clip_def is_tween_def clip_def get_def get_default_def)

lemma tweens_follow_clips_append:
  assumes "tweens_follow_clips q" "is_clip c" "\<not> is_tween c"
  shows "tweens_follow_clips (q @ [c])" and "tweens_follow_clips (q @ [c, t])"
proof -
  have h: "is_clip (hd (q @ xs))" if "xs \<noteq> []" "hd xs = c" for xs
    using assms that by (cases q) (simp_all add: tweens_follow_clips_def)
  have old: "is_clip ((q @ xs) ! j)" if "Suc j < length q" "is_tween ((q @ xs) ! Suc j)" for xs j
    using assms(1) that by (simp add: nth_append tweens_follow_clips_def)
  show "tweens_follow_clips (q @ [c])"
    unfolding tweens_follow_clips_def
  proof (intro conjI allI impI)
    show "is_clip (hd (q @ [c]))" by (rule h) simp_all
  next
    fix j assume a: "Suc j < length (q @ [c]) \<and> is_tween ((q @ [c]) ! Suc j)"
    then have "Suc j < length q \<or> Suc j = length q" by auto
    moreover have "Suc j \<noteq> length q" using a assms(3) by (auto simp: nth_append)
    ultimately show "is_clip ((q @ [c]) ! j)" using a old by blast
  qed
  show "tweens_follow_clips (q @ [c, t])"
    unfolding tweens_follow_clips_def
  proof (intro conjI allI impI)
    show "is_clip (hd (q @ [c, t]))" by (rule h) simp_all
  next
    fix j assume a: "Suc j < length (q @ [c, t]) \<and> is_tween ((q @ [c, t]) ! Suc j)"
    then consider "Suc j < length q" | "Suc j = length q" | "j = length q" by fastforce
    then show "is_clip ((q @ [c, t]) ! j)"
    proof cases
      case 1
      then show ?thesis using a old by blast
    next
      case 2
      then have "(q @ [c, t]) ! Suc j = c" by (simp add: nth_append)
      then show ?thesis using a assms(3) by simp
    next
      case 3
      then show ?thesis using assms(2) by (simp add: nth_append)
    qed
  qed
qed

lemma gloss_loop_tweens_follow_clips:
  "tweens_follow_clips queue \<Longrightarrow> gloss_loop lexicon tween_ms rate n igs queue = Inr q \<Longrightarrow>
   tweens_follow_clips q"
proof (induction lexicon tween_ms rate n igs queue rule: gloss_loop.induct)
  case (1 lexicon tween_ms rate n queue)
  then show ?case by simp
next
  case (2 lexicon tween_ms rate n i g rest queue)
  show ?case
  proof (cases "truthy (lex_entry lexicon g)")
    case False
    then show ?thesis using 2 by (simp add: Let_def)
  next
    case True
    then obtain e dur where e: "lex_entry lexicon g = JObj e"
      and d: "scaled_duration (get_default e ''dur_ms'' (JNum 1000)) rate = Inr dur"
      using "2.prems"(2) by (auto simp: Let_def split: json.splits sum.splits)
    let ?c = "clip (get_default e ''label'' (JStr g)) (get e ''asset'') dur"
    let ?q = "if tween_ms \<noteq> 0 \<and> int i < int n - 1 then (queue @ [?c]) @ [tween tween_ms] else queue @ [?c]"
    have "tweens_follow_clips ?q"
      using tweens_follow_clips_append [OF "2.prems"(1), of ?c] is_clip_clip by simp
    moreover have "gloss_loop lexicon tween_ms rate n rest ?q = Inr q"
      using "2.prems"(2) True e d by (simp add: Let_def)
    ultimately show ?thesis
      using "2.IH"(1) [OF refl True e d refl refl] by simp
  qed
qed

lemma map_gloss_to_queue_tweens_follow_clips:
  "map_gloss_to_queue gloss lexicon tween_ms rate = Inr q \<Longrightarrow> tweens_follow_clips q"
  using gloss_loop_tweens_follow_clips [of "[]" lexicon tween_ms rate "length gloss" "enumerate 0 gloss" q]
  by (simp add: map_gloss_to_queue_def tweens_follow_clips_def)

text \<open>
  C1. For the glosses \<open>HELLO\<close>, \<open>XYZZY\<close>, of which only the first has a lexicon entry,
  and a tween duration of 100, the queue ends with a tween: the clip is not the last gloss
  of the sequence, so a tween follows it, and no clip follows the tween.
\<close>

theorem trailing_tween:
  "map_gloss_to_queue [''HELLO'', ''XYZZY''] sample_lexicon 100 1 =
     Inr [clip (JStr ''HELLO'') (JStr ''hello.mp4'') 1200, tween 100] \<and>
   is_tween (last [clip (JStr ''HELLO'') (JStr ''hello.mp4'') 1200, tween 100])"
  by code_simp







end
